theory Spec2Isabelle
  imports Complex_Main "HOL-Library.Char_ord" "HOL-Library.List_Lexorder"
begin

section \<open>Data model of the ledger\<close>

text \<open>
  The ledger of \<^verbatim>\<open>routes/accounting.js\<close>, \<^verbatim>\<open>routes/orders.js\<close> and the accounting
  service is embedded over an explicit store: one list per MongoDB collection, in
  insertion order. Amounts are JavaScript numbers in the source; they are modelled as
  exact rationals, so rounding of binary floating point is outside the model. Dates are
  milliseconds since the epoch. Object ids are natural numbers drawn from a counter of
  the store. Free-text memo and description fields carry no logic and are left out.
\<close>

type_synonym amount = rat
type_synonym date = int
type_synonym oid = nat

record account =
  code :: string
  accountType :: string
  acc_status :: string

record line =
  accountCode :: string
  debit :: amount
  credit :: amount
  partner :: "oid option"
  partnerType :: "string option"

record journal_entry =
  je_id :: oid
  referenceNo :: string
  je_date :: date
  entryType :: string
  lines :: "line list"
  sourceId :: "oid option"
  sourceType :: "string option"
  je_status :: string

record debt =
  debt_id :: oid
  journalEntry :: oid
  counterparty :: "oid option"
  debt_order :: "oid option"
  originalAmount :: amount
  remainingAmount :: amount
  paymentStatus :: string
  dueDate :: date
  invoiceDate :: date

record period =
  per_id :: oid
  periodName :: string
  startDate :: date
  endDate :: date
  lockDate :: "date option"
  per_status :: string
  closedAt :: "date option"
  closedBy :: "oid option"
  per_notes :: string

text \<open>
  Orders and products are owned by the shop; the ledger reads the fields below. An
  order line also carries a title, a price and an image, which the ledger never reads.
  \<open>user\<close> is \<open>None\<close> for a guest order (the schema has \<^verbatim>\<open>required: false, default: null\<close>).
\<close>

record order_item =
  product :: oid
  quantity :: amount

record order =
  order_id :: oid
  user :: "oid option"
  orderItems :: "order_item list"
  finalTotal :: amount
  paymentMethod :: string
  ord_status :: string
  createdAt :: "date option"
  updatedAt :: "date option"

record product_doc =
  prod_id :: oid
  averageCost :: "amount option"
  price :: "amount option"
  stock :: "amount option"

record depreciation_row =
  dep_month :: string
  dep_amount :: amount
  dep_journalEntry :: oid

record fixed_asset =
  asset_id :: oid
  assetCode :: string
  originalCost :: amount
  usefulLife :: amount
  accumulatedDepreciation :: amount
  bookValue :: amount
  monthlyDepreciation :: "amount option"
  depreciationHistory :: "depreciation_row list"
  asset_status :: string

record transaction_doc =
  txn_id :: oid
  txn_type :: string
  txn_amount :: amount
  txn_date :: date
  txn_reference :: string
  txn_paymentStatus :: string

record user_doc =
  user_id :: oid
  role :: string

record store =
  accounts :: "account list"
  journalEntries :: "journal_entry list"
  receivables :: "debt list"
  payables :: "debt list"
  periods :: "period list"
  orders :: "order list"
  products :: "product_doc list"
  fixedAssets :: "fixed_asset list"
  transactions :: "transaction_doc list"
  users :: "user_doc list"
  nextId :: oid

definition emptyStore :: store where
  "emptyStore = \<lparr>accounts = [], journalEntries = [], receivables = [], payables = [],
     periods = [], orders = [], products = [], fixedAssets = [], transactions = [],
     users = [], nextId = 0\<rparr>"

text \<open>
  Every early \<^verbatim>\<open>return res.status(...)\<close> and every \<^verbatim>\<open>throw\<close> of the source is a
  value of \<open>error\<close>; \<open>httpStatus\<close> gives the status code the route answers with.
\<close>

datatype error =
    MissingFields
  | InvalidType
  | InvalidAmount
  | InvalidPartner
  | InvalidPhone
  | InvalidDueDate
  | InvalidCategory
  | Unbalanced amount amount
  | AccountMissing
  | EntryNotFound
  | DuplicateReference
  | HasDebt bool bool
  | SameAccount
  | NotAssetAccount
  | PeriodNotFound
  | PeriodAlreadyClosed
  | Locked date
  | Thrown string

fun httpStatus :: "error \<Rightarrow> nat" where
  "httpStatus EntryNotFound = 404"
| "httpStatus PeriodNotFound = 404"
| "httpStatus (Locked _) = 403"
| "httpStatus (Thrown _) = 500"
| "httpStatus _ = 400"

text \<open>
  \<^verbatim>\<open>lines.reduce((sum, line) => sum + (parseFloat(line.debit) || 0), 0)\<close>, on lines whose
  amounts are already numbers.
\<close>

definition totalDebit :: "line list \<Rightarrow> amount" where
  "totalDebit ls = sum_list (map debit ls)"

definition totalCredit :: "line list \<Rightarrow> amount" where
  "totalCredit ls = sum_list (map credit ls)"

text \<open>The test \<^verbatim>\<open>Math.abs(totalDebit - totalCredit) > 0.01\<close> that rejects an entry.\<close>

definition unbalanced :: "line list \<Rightarrow> bool" where
  "unbalanced ls = (\<bar>totalDebit ls - totalCredit ls\<bar> > 1 / 100)"


definition mkLine :: "string \<Rightarrow> amount \<Rightarrow> amount \<Rightarrow> line" where
  "mkLine c d k = \<lparr>accountCode = c, debit = d, credit = k, partner = None, partnerType = None\<rparr>"

text \<open>
  \<^verbatim>\<open>await entry.save({ session })\<close> of a new document: the collection has a unique
  index on the reference number (the routes answer error code 11000 with "reference
  number already exists"), and the new document takes the next object id.
\<close>

definition findByReferenceNo :: "store \<Rightarrow> string \<Rightarrow> journal_entry option" where
  "findByReferenceNo st r = find (\<lambda>e. referenceNo e = r) (journalEntries st)"

definition saveNewEntry ::
  "store \<Rightarrow> string \<Rightarrow> date \<Rightarrow> string \<Rightarrow> line list \<Rightarrow> oid option \<Rightarrow> string option
     \<Rightarrow> error + (journal_entry \<times> store)" where
  "saveNewEntry st r d ty ls sid sty =
     (case findByReferenceNo st r of
        Some _ \<Rightarrow> Inl DuplicateReference
      | None \<Rightarrow>
          let e = \<lparr>je_id = nextId st, referenceNo = r, je_date = d, entryType = ty, lines = ls,
                   sourceId = sid, sourceType = sty, je_status = ''posted''\<rparr>
          in Inr (e, st\<lparr>journalEntries := journalEntries st @ [e], nextId := Suc (nextId st)\<rparr>))"

text \<open>
  A route that opens a session runs its body on the session's view of the store. Each
  early return of such a body is preceded by \<^verbatim>\<open>session.abortTransaction()\<close> and the
  \<^verbatim>\<open>catch\<close> block aborts too, so the body is a function into \<open>error + ('a \<times> store)\<close> and
  the transaction keeps the body's store only when the body reached
  \<^verbatim>\<open>session.commitTransaction()\<close>.
\<close>

definition withTransaction ::
  "(store \<Rightarrow> error + ('a \<times> store)) \<Rightarrow> store \<Rightarrow> (error + 'a) \<times> store" where
  "withTransaction body st =
     (case body st of Inl e \<Rightarrow> (Inl e, st) | Inr (x, st') \<Rightarrow> (Inr x, st'))"

section \<open>Period closing: POST /close-period\<close>

record close_request =
  periodId :: "oid option"
  req_lockDate :: "date option"
  req_notes :: string
  userId :: "oid option"

text \<open>
  The clock of one request: \<^verbatim>\<open>new Date()\<close> and the three
  \<^verbatim>\<open>Date.now().toString().slice(-6)\<close> suffixes of the closing reference numbers.
\<close>

record close_clock =
  today :: date
  stampDT :: string
  stampCP :: string
  stampLN :: string

text \<open>The regular expressions \<^verbatim>\<open>/^5|^7/\<close> and \<^verbatim>\<open>/^6|^8/\<close> on an account code.\<close>

definition isRevenueCode :: "string \<Rightarrow> bool" where
  "isRevenueCode c = (case c of [] \<Rightarrow> False | x # _ \<Rightarrow> x = CHR ''5'' \<or> x = CHR ''7'')"

definition isExpenseCode :: "string \<Rightarrow> bool" where
  "isExpenseCode c = (case c of [] \<Rightarrow> False | x # _ \<Rightarrow> x = CHR ''6'' \<or> x = CHR ''8'')"

text \<open>
  The first two stages of both aggregations: posted entries dated in the period,
  unwound into their lines.
\<close>

definition periodLines :: "store \<Rightarrow> period \<Rightarrow> line list" where
  "periodLines st p =
     concat (map lines (filter (\<lambda>e. je_status e = ''posted'' \<and> startDate p \<le> je_date e
                                      \<and> je_date e \<le> endDate p) (journalEntries st)))"

text \<open>
  \<^verbatim>\<open>$group\<close> by account code with a \<^verbatim>\<open>$sum\<close>. MongoDB leaves the order of the groups
  open; the model lists them in order of first occurrence.
\<close>

definition groupSum :: "(line \<Rightarrow> amount) \<Rightarrow> line list \<Rightarrow> (string \<times> amount) list" where
  "groupSum f ls =
     map (\<lambda>c. (c, sum_list (map f (filter (\<lambda>l. accountCode l = c) ls))))
         (remdups (map accountCode ls))"

definition revenueEntries :: "store \<Rightarrow> period \<Rightarrow> (string \<times> amount) list" where
  "revenueEntries st p =
     groupSum credit (filter (\<lambda>l. isRevenueCode (accountCode l) \<and> credit l > 0) (periodLines st p))"

definition expenseEntries :: "store \<Rightarrow> period \<Rightarrow> (string \<times> amount) list" where
  "expenseEntries st p =
     groupSum debit (filter (\<lambda>l. isExpenseCode (accountCode l) \<and> debit l > 0) (periodLines st p))"

definition totalRevenue :: "store \<Rightarrow> period \<Rightarrow> amount" where
  "totalRevenue st p = sum_list (map snd (revenueEntries st p))"

definition totalExpense :: "store \<Rightarrow> period \<Rightarrow> amount" where
  "totalExpense st p = sum_list (map snd (expenseEntries st p))"

definition netProfit :: "store \<Rightarrow> period \<Rightarrow> amount" where
  "netProfit st p = totalRevenue st p - totalExpense st p"

definition revenueClosingLines :: "store \<Rightarrow> period \<Rightarrow> line list" where
  "revenueClosingLines st p =
     map (\<lambda>(c, a). mkLine c a 0) (revenueEntries st p)
     @ (if totalRevenue st p > 0 then [mkLine ''911'' 0 (totalRevenue st p)] else [])"

definition expenseClosingLines :: "store \<Rightarrow> period \<Rightarrow> line list" where
  "expenseClosingLines st p =
     map (\<lambda>(c, a). mkLine c 0 a) (expenseEntries st p)
     @ (if totalExpense st p > 0 then [mkLine ''911'' (totalExpense st p) 0] else [])"

definition profitClosingLines :: "store \<Rightarrow> period \<Rightarrow> line list" where
  "profitClosingLines st p =
     (let np = netProfit st p in
      if np > 0 then [mkLine ''911'' np 0, mkLine ''421'' 0 np]
      else if np < 0 then [mkLine ''421'' \<bar>np\<bar> 0, mkLine ''911'' 0 \<bar>np\<bar>]
      else [])"

text \<open>\<^verbatim>\<open>period.periodName.replace(/\s+/g, '-')\<close>: each run of white space becomes one dash.\<close>

definition isSpace :: "char \<Rightarrow> bool" where
  "isSpace c = (c = CHR '' '' \<or> c = CHR 0x09 \<or> c = CHR 0x0A \<or> c = CHR 0x0B \<or> c = CHR 0x0C
                \<or> c = CHR 0x0D)"

fun dashSpaces :: "bool \<Rightarrow> string \<Rightarrow> string" where
  "dashSpaces _ [] = []"
| "dashSpaces inRun (c # cs) =
     (if isSpace c then (if inRun then dashSpaces True cs else CHR ''-'' # dashSpaces True cs)
      else c # dashSpaces False cs)"

definition closingRef :: "string \<Rightarrow> period \<Rightarrow> string \<Rightarrow> string" where
  "closingRef tag p stamp = tag @ dashSpaces False (periodName p) @ ''-'' @ stamp"

text \<open>One of the three \<^verbatim>\<open>if (xLines.length > 0) { ... await xEntry.save({ session }) }\<close>.\<close>

definition saveClosing ::
  "string \<Rightarrow> period \<Rightarrow> line list \<Rightarrow> journal_entry list \<times> store
     \<Rightarrow> error + (journal_entry list \<times> store)" where
  "saveClosing ref p ls acc =
     (case acc of (closing, st) \<Rightarrow>
        if ls = [] then Inr (closing, st)
        else (case saveNewEntry st ref (endDate p) ''closing'' ls None (Some ''period_closing'') of
                Inl e \<Rightarrow> Inl (Thrown ''duplicate key'')
              | Inr (e, st') \<Rightarrow> Inr (closing @ [e], st')))"

record close_result =
  res_period :: period
  res_totalRevenue :: amount
  res_totalExpense :: amount
  res_netProfit :: amount
  closingEntries :: "journal_entry list"

definition closePeriodBody ::
  "close_clock \<Rightarrow> close_request \<Rightarrow> store \<Rightarrow> error + (close_result \<times> store)" where
  "closePeriodBody clk rq st =
     (case periodId rq of
        None \<Rightarrow> Inl MissingFields
      | Some pid \<Rightarrow>
     (case find (\<lambda>p. per_id p = pid) (periods st) of
        None \<Rightarrow> Inl PeriodNotFound
      | Some p \<Rightarrow>
          if per_status p = ''closed'' then Inl PeriodAlreadyClosed
          else
            let lockDateObj = (case req_lockDate rq of Some d \<Rightarrow> d | None \<Rightarrow> endDate p) in
            (case saveClosing (closingRef ''KC-DT-'' p (stampDT clk)) p (revenueClosingLines st p)
                    ([], st) of
               Inl e \<Rightarrow> Inl e
             | Inr acc1 \<Rightarrow>
            (case saveClosing (closingRef ''KC-CP-'' p (stampCP clk)) p (expenseClosingLines st p)
                    acc1 of
               Inl e \<Rightarrow> Inl e
             | Inr acc2 \<Rightarrow>
            (case saveClosing (closingRef ''KC-LN-'' p (stampLN clk)) p (profitClosingLines st p)
                    acc2 of
               Inl e \<Rightarrow> Inl e
             | Inr (closing, st3) \<Rightarrow>
                 let p' = p\<lparr>lockDate := Some lockDateObj, per_status := ''closed'',
                            closedAt := Some (today clk), closedBy := userId rq,
                            per_notes := (if req_notes rq \<noteq> [] then req_notes rq
                                          else per_notes p)\<rparr>
                 in Inr (\<lparr>res_period = p', res_totalRevenue = totalRevenue st p,
                          res_totalExpense = totalExpense st p, res_netProfit = netProfit st p,
                          closingEntries = closing\<rparr>,
                         st3\<lparr>periods := map (\<lambda>q. if per_id q = pid then p' else q)
                                            (periods st3)\<rparr>))))))"

definition closePeriod ::
  "close_clock \<Rightarrow> close_request \<Rightarrow> store \<Rightarrow> (error + close_result) \<times> store" where
  "closePeriod clk rq = withTransaction (closePeriodBody clk rq)"

section \<open>Cost of goods sold: postCOGSEntry and POST /post-cogs\<close>

text \<open>
  \<^verbatim>\<open>x || y\<close> on a number field that may be undefined: the right operand when the field
  is missing or zero.
\<close>

definition orElse :: "amount option \<Rightarrow> amount \<Rightarrow> amount" where
  "orElse x y = (case x of None \<Rightarrow> y | Some v \<Rightarrow> if v = 0 then y else v)"

definition orNow :: "date option \<Rightarrow> date \<Rightarrow> date" where
  "orNow x now = (case x of None \<Rightarrow> now | Some d \<Rightarrow> d)"

text \<open>\<^verbatim>\<open>Model.findByIdAndUpdate\<close>: the first document the predicate selects is replaced.\<close>

fun updateFirst :: "('a \<Rightarrow> bool) \<Rightarrow> ('a \<Rightarrow> 'a) \<Rightarrow> 'a list \<Rightarrow> 'a list" where
  "updateFirst P f [] = []"
| "updateFirst P f (x # xs) = (if P x then f x # xs else x # updateFirst P f xs)"

record product_update =
  upd_productId :: oid
  upd_quantitySold :: amount
  upd_averageCost :: amount
  upd_itemCOGS :: amount
  upd_newStock :: amount

text \<open>
  The clock and the random source of one call: the reference number
  \<^verbatim>\<open>COGS-<year><month>-<random>\<close> (or \<^verbatim>\<open>HD-...\<close> for a sale) and \<^verbatim>\<open>new Date()\<close>.
\<close>

record post_env =
  env_ref :: string
  env_now :: date

text \<open>
  The guard against double posting: the first posted entry whose source is the order
  and that has a line on account 632.
\<close>

definition isCOGSEntryOf :: "oid \<Rightarrow> journal_entry \<Rightarrow> bool" where
  "isCOGSEntryOf orderId e =
     (sourceId e = Some orderId \<and> sourceType e = Some ''order''
      \<and> list_ex (\<lambda>l. accountCode l = ''632'') (lines e) \<and> je_status e = ''posted'')"

text \<open>
  The loop over the order lines. The state is the running total, the list of updated
  products and the product collection, whose stock is written at once
  (\<^verbatim>\<open>quantity\<close> is a required number, so \<^verbatim>\<open>item.quantity || 0\<close> is the quantity).
\<close>

fun cogsLoop ::
  "order_item list \<Rightarrow> amount \<times> product_update list \<times> product_doc list
     \<Rightarrow> amount \<times> product_update list \<times> product_doc list" where
  "cogsLoop [] acc = acc"
| "cogsLoop (item # items) (totalCOGS, productsUpdated, prods) =
     (let quantitySold = quantity item in
      if quantitySold \<le> 0 then cogsLoop items (totalCOGS, productsUpdated, prods)
      else
        (case find (\<lambda>p. prod_id p = product item) prods of
           None \<Rightarrow> cogsLoop items (totalCOGS, productsUpdated, prods)
         | Some p \<Rightarrow>
             let cost = orElse (averageCost p) (orElse (price p) 0);
                 currentStock = orElse (stock p) 0;
                 itemCOGS = cost * quantitySold;
                 newStock = max 0 (currentStock - quantitySold)
             in cogsLoop items
                  (totalCOGS + itemCOGS,
                   productsUpdated @ [\<lparr>upd_productId = product item,
                      upd_quantitySold = quantitySold, upd_averageCost = cost,
                      upd_itemCOGS = itemCOGS, upd_newStock = newStock\<rparr>],
                   updateFirst (\<lambda>x. prod_id x = product item) (\<lambda>x. x\<lparr>stock := Some newStock\<rparr>)
                     prods)))"

text \<open>
  postCOGSEntry does not own a transaction: it writes through the session it is given,
  or directly when the order route calls it without one. The model returns the result
  together with the store as the function leaves it, so the writes made before a
  \<^verbatim>\<open>throw\<close> are visible; the route POST /post-cogs discards them by aborting.
\<close>

definition postCOGSEntry ::
  "post_env \<Rightarrow> oid \<Rightarrow> store \<Rightarrow> (error + journal_entry \<times> product_update list) \<times> store" where
  "postCOGSEntry env orderId st =
     (case find (\<lambda>ord. order_id ord = orderId) (orders st) of
        None \<Rightarrow> (Inl (Thrown ''order not found''), st)
      | Some ord \<Rightarrow>
     (case find (isCOGSEntryOf orderId) (journalEntries st) of
        Some existingCOGSEntry \<Rightarrow> (Inr (existingCOGSEntry, []), st)
      | None \<Rightarrow>
          if orderItems ord = [] then (Inl (Thrown ''order has no items''), st)
          else
            (case cogsLoop (orderItems ord) (0, [], products st) of
               (totalCOGS, productsUpdated, prods) \<Rightarrow>
                 let st1 = st\<lparr>products := prods\<rparr> in
                 if totalCOGS \<le> 0 then (Inl (Thrown ''total COGS must be positive''), st1)
                 else if length (filter (\<lambda>a. code a \<in> set [''632'', ''156'']) (accounts st1)) \<noteq> 2
                 then (Inl (Thrown ''account 632 or 156 missing''), st1)
                 else
                   (case findByReferenceNo st1 (env_ref env) of
                      Some _ \<Rightarrow> (Inl (Thrown ''reference number exists''), st1)
                    | None \<Rightarrow>
                        let ls = [mkLine ''632'' totalCOGS 0, mkLine ''156'' 0 totalCOGS] in
                        if unbalanced ls then (Inl (Thrown ''entry not balanced''), st1)
                        else
                          (case saveNewEntry st1 (env_ref env) (orNow (createdAt ord) (env_now env))
                                  ''inventory'' ls (Some orderId) (Some ''order'') of
                             Inl e \<Rightarrow> (Inl e, st1)
                           | Inr (e, st2) \<Rightarrow> (Inr (e, productsUpdated), st2))))))"


section \<open>Sale posting: createSaleJournalEntry and createReceivableFromOrder\<close>









section \<open>Manual journal entries: POST, PUT and DELETE /journal-entries\<close>

text \<open>
  A line of a request body. \<open>raw_debit\<close> is \<^verbatim>\<open>parseFloat(line.debit)\<close>, with \<open>None\<close>
  for NaN (a missing or non-numeric field), so that \<^verbatim>\<open>parseFloat(line.debit) || 0\<close> is
  \<open>orElse (raw_debit l) 0\<close>.
\<close>

record raw_line =
  raw_accountCode :: string
  raw_debit :: "amount option"
  raw_credit :: "amount option"
  raw_partner :: "oid option"
  raw_partnerType :: "string option"

definition toLine :: "raw_line \<Rightarrow> line" where
  "toLine l = \<lparr>accountCode = raw_accountCode l, debit = orElse (raw_debit l) 0,
     credit = orElse (raw_credit l) 0, partner = raw_partner l,
     partnerType = raw_partnerType l\<rparr>"

text \<open>
  A body of POST or PUT /journal-entries. An empty string stands for a missing string
  field and \<open>None\<close> for a missing date; for PUT, \<open>rq_sourceId = None\<close> is
  \<^verbatim>\<open>undefined\<close> and \<open>Some None\<close> is \<^verbatim>\<open>null\<close>.
\<close>

record entry_request =
  rq_referenceNo :: string
  rq_date :: "date option"
  rq_memo :: string
  rq_entryType :: string
  rq_lines :: "raw_line list"
  rq_sourceId :: "oid option option"
  rq_sourceType :: "string option option"

text \<open>
  \<^verbatim>\<open>Account.find({ code: { $in: accountCodes } })\<close> against the distinct codes of the
  lines: the request is refused unless the two lists have the same length.
\<close>

definition accountsExist :: "store \<Rightarrow> string list \<Rightarrow> bool" where
  "accountsExist st codes =
     (length (filter (\<lambda>a. code a \<in> set codes) (accounts st)) = length (remdups codes))"


text \<open>
  PUT /journal-entries/:id. Where the source has the comment
  \<^verbatim>\<open>// Kiem tra Lock Date (neu co)  // TODO: Implement lock date check\<close> the route does
  nothing, and so does the model.
\<close>

definition updateJournalEntry ::
  "oid \<Rightarrow> entry_request \<Rightarrow> store \<Rightarrow> error + journal_entry \<times> store" where
  "updateJournalEntry i rq st =
     (case find (\<lambda>e. je_id e = i) (journalEntries st) of
        None \<Rightarrow> Inl EntryNotFound
      | Some entry \<Rightarrow>
          let ls = map toLine (rq_lines rq) in
          if rq_lines rq \<noteq> [] \<and> unbalanced ls then Inl (Unbalanced (totalDebit ls) (totalCredit ls))
          else if rq_lines rq \<noteq> [] \<and> \<not> accountsExist st (map raw_accountCode (rq_lines rq))
          then Inl AccountMissing
          else
            let e1 = (if rq_lines rq \<noteq> [] then entry\<lparr>lines := ls\<rparr> else entry);
                e2 = (if rq_referenceNo rq \<noteq> [] then e1\<lparr>referenceNo := rq_referenceNo rq\<rparr> else e1);
                e3 = (case rq_date rq of Some d \<Rightarrow> e2\<lparr>je_date := d\<rparr> | None \<Rightarrow> e2);
                e4 = (if rq_entryType rq \<noteq> [] then e3\<lparr>entryType := rq_entryType rq\<rparr> else e3);
                e5 = (case rq_sourceId rq of Some v \<Rightarrow> e4\<lparr>sourceId := v\<rparr> | None \<Rightarrow> e4);
                e6 = (case rq_sourceType rq of Some v \<Rightarrow> e5\<lparr>sourceType := v\<rparr> | None \<Rightarrow> e5)
            in if list_ex (\<lambda>x. je_id x \<noteq> i \<and> referenceNo x = referenceNo e6) (journalEntries st)
               then Inl DuplicateReference
               else Inr (e6, st\<lparr>journalEntries :=
                                 updateFirst (\<lambda>x. je_id x = i) (\<lambda>_. e6) (journalEntries st)\<rparr>))"

text \<open>
  DELETE /journal-entries/:id: blocked while a receivable or payable refers to the
  entry; the lock date is again a \<^verbatim>\<open>TODO\<close> only.
\<close>

fun removeFirst :: "('a \<Rightarrow> bool) \<Rightarrow> 'a list \<Rightarrow> 'a list" where
  "removeFirst P [] = []"
| "removeFirst P (x # xs) = (if P x then xs else x # removeFirst P xs)"

definition deleteJournalEntry :: "oid \<Rightarrow> store \<Rightarrow> error + store" where
  "deleteJournalEntry i st =
     (case find (\<lambda>e. je_id e = i) (journalEntries st) of
        None \<Rightarrow> Inl EntryNotFound
      | Some entry \<Rightarrow>
          let receivable = find (\<lambda>r. journalEntry r = i) (receivables st);
              payable = find (\<lambda>r. journalEntry r = i) (payables st)
          in if receivable \<noteq> None \<or> payable \<noteq> None
             then Inl (HasDebt (receivable \<noteq> None) (payable \<noteq> None))
             else Inr (st\<lparr>journalEntries := removeFirst (\<lambda>e. je_id e = i) (journalEntries st)\<rparr>))"

section \<open>The lock date guard and the transactions it protects\<close>

datatype lock_check = NotLocked | IsLocked date string

text \<open>
  checkLockDate: the first closed period with a lock date that contains the date; the
  transaction is locked when its date is on or before that lock date.
\<close>

definition checkLockDate :: "store \<Rightarrow> date \<Rightarrow> lock_check" where
  "checkLockDate st transactionDate =
     (case find (\<lambda>p. startDate p \<le> transactionDate \<and> transactionDate \<le> endDate p
                     \<and> lockDate p \<noteq> None \<and> per_status p = ''closed'') (periods st) of
        None \<Rightarrow> NotLocked
      | Some p \<Rightarrow>
          (case lockDate p of
             None \<Rightarrow> NotLocked
           | Some l \<Rightarrow> if transactionDate \<le> l then IsLocked l (periodName p) else NotLocked))"

definition deleteTransaction :: "oid \<Rightarrow> store \<Rightarrow> error + store" where
  "deleteTransaction i st =
     (case find (\<lambda>t. txn_id t = i) (transactions st) of
        None \<Rightarrow> Inl EntryNotFound
      | Some t \<Rightarrow>
          (case checkLockDate st (txn_date t) of
             IsLocked l _ \<Rightarrow> Inl (Locked l)
           | NotLocked \<Rightarrow>
               Inr (st\<lparr>transactions := removeFirst (\<lambda>t. txn_id t = i) (transactions st)\<rparr>)))"

section \<open>Internal transfer and adjusting entry\<close>




record adjusting_request =
  adj_referenceNo :: string
  adj_date :: "date option"
  adjustedDate :: "date option"
  adj_lines :: "raw_line list"

definition toAdjustingLine :: "raw_line \<Rightarrow> line" where
  "toAdjustingLine l = mkLine (raw_accountCode l) (orElse (raw_debit l) 0) (orElse (raw_credit l) 0)"



section \<open>Rule-driven posting: POST /post-entry\<close>

text \<open>
  The category of a request is a free-text key in the source. The constructors are the
  keys of \<^verbatim>\<open>categoryMapping\<close> (Ban hang, Dich vu, Dau tu, Khac, Nguyen vat lieu, Luong
  nhan vien, Marketing, Van chuyen, Dien nuoc, Thue mat bang, Bao tri); every other
  non-empty string is \<open>OtherCategory\<close> and takes the mapping of Khac. The object literal
  of the source has the key Khac twice, and the later one (no income account, expense
  811) is the one in force.
\<close>

datatype category =
    BanHang | DichVu | DauTu | Khac | NguyenVatLieu | LuongNhanVien | Marketing | VanChuyen
  | DienNuoc | ThueMatBang | BaoTri | OtherCategory
























section \<open>Monthly depreciation: POST /depreciation/calculate\<close>

text \<open>
  \<^verbatim>\<open>asset.originalCost / asset.usefulLife\<close> is a JavaScript division: by zero it yields an
  infinity or NaN, which the comparison and \<^verbatim>\<open>Math.min\<close> after it treat in their own
  way. \<open>jsnum\<close> keeps these values apart from the finite amounts.
\<close>

datatype jsnum = Fin amount | PosInf | NegInf | NaN

definition jsDivide :: "amount \<Rightarrow> amount \<Rightarrow> jsnum" where
  "jsDivide x y =
     (if y \<noteq> 0 then Fin (x / y) else if x > 0 then PosInf else if x < 0 then NegInf else NaN)"

text \<open>\<^verbatim>\<open>Math.min(x, r)\<close> for a finite r.\<close>

fun jsMin :: "jsnum \<Rightarrow> amount \<Rightarrow> jsnum" where
  "jsMin (Fin m) r = Fin (min m r)"
| "jsMin PosInf r = Fin r"
| "jsMin NegInf r = NegInf"
| "jsMin NaN r = NaN"

text \<open>\<^verbatim>\<open>asset.monthlyDepreciation || (asset.originalCost / asset.usefulLife)\<close>\<close>

definition monthlyAmount :: "fixed_asset \<Rightarrow> jsnum" where
  "monthlyAmount a =
     (case monthlyDepreciation a of
        Some m \<Rightarrow> if m \<noteq> 0 then Fin m else jsDivide (originalCost a) (usefulLife a)
      | None \<Rightarrow> jsDivide (originalCost a) (usefulLife a))"

definition remainingValue :: "fixed_asset \<Rightarrow> amount" where
  "remainingValue a = originalCost a - accumulatedDepreciation a"

definition depreciationAmount :: "fixed_asset \<Rightarrow> jsnum" where
  "depreciationAmount a = jsMin (monthlyAmount a) (remainingValue a)"

text \<open>
  \<^verbatim>\<open>asset._id.toString().slice(-6)\<close>: the last six hexadecimal digits of the object id.
\<close>

definition hexDigit :: "nat \<Rightarrow> char" where
  "hexDigit n = ''0123456789abcdef'' ! (n mod 16)"

definition idSuffix :: "oid \<Rightarrow> string" where
  "idSuffix i = map (\<lambda>k. hexDigit (i div 16 ^ k)) [5, 4, 3, 2, 1, 0]"

definition depreciationRef :: "string \<Rightarrow> fixed_asset \<Rightarrow> string" where
  "depreciationRef targetMonth a =
     ''DEP-'' @ targetMonth @ ''-'' @ (if assetCode a \<noteq> [] then assetCode a else idSuffix (asset_id a))"

record depreciation_result =
  dr_asset :: oid
  dr_depreciationAmount :: amount
  dr_accumulatedDepreciation :: amount
  dr_bookValue :: amount
  dr_journalEntry :: oid

text \<open>
  The posting half of one loop iteration, for a finite positive amount: the entry, then
  the asset with its new history row.
\<close>

definition postDepreciation ::
  "string \<Rightarrow> date \<Rightarrow> fixed_asset \<Rightarrow> amount \<Rightarrow> store
     \<Rightarrow> error + fixed_asset \<times> store \<times> depreciation_result option" where
  "postDepreciation targetMonth monthStart a amt st =
     (case findByReferenceNo st (depreciationRef targetMonth a) of
        Some _ \<Rightarrow> Inr (a, st, None)
      | None \<Rightarrow>
          (case saveNewEntry st (depreciationRef targetMonth a) monthStart ''depreciation''
                  [mkLine ''642'' amt 0, mkLine ''214'' 0 amt] (Some (asset_id a))
                  (Some ''depreciation'') of
             Inl e \<Rightarrow> Inl (Thrown ''duplicate key'')
           | Inr (je, st') \<Rightarrow>
               let acc = accumulatedDepreciation a + amt;
                   a' = a\<lparr>accumulatedDepreciation := acc, bookValue := originalCost a - acc,
                          depreciationHistory := depreciationHistory a
                            @ [\<lparr>dep_month = targetMonth, dep_amount = amt,
                                dep_journalEntry = je_id je\<rparr>]\<rparr>
               in Inr (a', st',
                       Some \<lparr>dr_asset = asset_id a, dr_depreciationAmount = amt,
                             dr_accumulatedDepreciation = acc,
                             dr_bookValue = originalCost a - acc, dr_journalEntry = je_id je\<rparr>)))"

text \<open>
  One iteration of the loop over the active assets. \<open>monthStart\<close> is
  \<^verbatim>\<open>new Date(targetMonth + '-01')\<close>. An amount of NaN passes the test
  \<^verbatim>\<open>depreciationAmount <= 0\<close> and fails when the entry is saved, because Mongoose does
  not cast NaN to a number.
\<close>

definition depreciateAsset ::
  "string \<Rightarrow> date \<Rightarrow> fixed_asset \<Rightarrow> store
     \<Rightarrow> error + fixed_asset \<times> store \<times> depreciation_result option" where
  "depreciateAsset targetMonth monthStart a st =
     (if list_ex (\<lambda>dep. dep_month dep = targetMonth) (depreciationHistory a) then Inr (a, st, None)
      else if accumulatedDepreciation a \<ge> originalCost a then Inr (a, st, None)
      else
        (case depreciationAmount a of
           Fin amt \<Rightarrow>
             if amt \<le> 0 then Inr (a, st, None)
             else postDepreciation targetMonth monthStart a amt st
         | NegInf \<Rightarrow> Inr (a, st, None)
         | _ \<Rightarrow>
             (case findByReferenceNo st (depreciationRef targetMonth a) of
                Some _ \<Rightarrow> Inr (a, st, None)
              | None \<Rightarrow> Inl (Thrown ''cast to number failed''))))"

fun depreciationLoop ::
  "string \<Rightarrow> date \<Rightarrow> fixed_asset list \<Rightarrow> store
     \<Rightarrow> error + fixed_asset list \<times> store \<times> depreciation_result list" where
  "depreciationLoop targetMonth monthStart [] st = Inr ([], st, [])"
| "depreciationLoop targetMonth monthStart (a # rest) st =
     (if asset_status a \<noteq> ''active''
      then (case depreciationLoop targetMonth monthStart rest st of
              Inl e \<Rightarrow> Inl e
            | Inr (rest', st', results) \<Rightarrow> Inr (a # rest', st', results))
      else
        (case depreciateAsset targetMonth monthStart a st of
           Inl e \<Rightarrow> Inl e
         | Inr (a', st1, r) \<Rightarrow>
             (case depreciationLoop targetMonth monthStart rest st1 of
                Inl e \<Rightarrow> Inl e
              | Inr (rest', st2, results) \<Rightarrow>
                  Inr (a' # rest', st2, (case r of None \<Rightarrow> [] | Some x \<Rightarrow> [x]) @ results))))"

definition depreciationCalculate ::
  "string \<Rightarrow> date \<Rightarrow> store \<Rightarrow> (error + depreciation_result list) \<times> store" where
  "depreciationCalculate targetMonth monthStart =
     withTransaction (\<lambda>st.
       case depreciationLoop targetMonth monthStart (fixedAssets st) st of
         Inl e \<Rightarrow> Inl (Thrown ''depreciation failed'')
       | Inr (assets', st', results) \<Rightarrow> Inr (results, st'\<lparr>fixedAssets := assets'\<rparr>))"

section \<open>Trial balance: GET /trial-balance\<close>






section \<open>Cash book transactions: POST /transactions\<close>











section \<open>The states of the journal\<close>



section \<open>Concrete ledgers\<close>

text \<open>
  A small chart of accounts and the period January 2024 (1704067200000 is
  2024-01-01T00:00:00Z, 1706745599000 is 2024-01-31T23:59:59Z).
\<close>

definition chart :: "account list" where
  "chart = map (\<lambda>(c, t). \<lparr>code = c, accountType = t, acc_status = ''active''\<rparr>)
     [(''111'', ''asset''), (''1121'', ''asset''), (''131'', ''asset''), (''156'', ''asset''),
      (''331'', ''liability''), (''421'', ''equity''), (''511'', ''revenue''),
      (''632'', ''expense''), (''642'', ''expense''), (''911'', ''equity'')]"

definition january :: period where
  "january = \<lparr>per_id = 7, periodName = ''Thang 1/2024'', startDate = 1704067200000,
     endDate = 1706745599000, lockDate = None, per_status = ''open'', closedAt = None,
     closedBy = None, per_notes = []\<rparr>"

definition januaryClosed :: period where
  "januaryClosed = january\<lparr>lockDate := Some 1706745599000, per_status := ''closed'',
     closedAt := Some 1706800000000, closedBy := Some 1\<rparr>"

definition saleEntry :: journal_entry where
  "saleEntry = \<lparr>je_id = 20, referenceNo = ''HD-202401-AB12C'', je_date = 1704931200000,
     entryType = ''sale'', lines = [mkLine ''1121'' 1000000 0, mkLine ''511'' 0 1000000],
     sourceId = Some 3, sourceType = Some ''order'', je_status = ''posted''\<rparr>"

definition costEntry :: journal_entry where
  "costEntry = \<lparr>je_id = 21, referenceNo = ''JE-202401-000021'', je_date = 1705017600000,
     entryType = ''payment'', lines = [mkLine ''642'' 700000 0, mkLine ''1121'' 0 700000],
     sourceId = None, sourceType = Some ''MANUAL'', je_status = ''posted''\<rparr>"

definition ledgerJan :: store where
  "ledgerJan = emptyStore\<lparr>accounts := chart, journalEntries := [saleEntry, costEntry],
     periods := [january], nextId := 30\<rparr>"

definition ledgerJanClosed :: store where
  "ledgerJanClosed = ledgerJan\<lparr>periods := [januaryClosed]\<rparr>"

definition closeJan :: close_request where
  "closeJan = \<lparr>periodId = Some 7, req_lockDate = Some 1706745599000, req_notes = [],
     userId = Some 1\<rparr>"

definition clockFeb :: close_clock where
  "clockFeb = \<lparr>today = 1706800000000, stampDT = ''000001'', stampCP = ''000002'',
     stampLN = ''000003''\<rparr>"

text \<open>
  A shop with one product and four orders: cash on delivery and shipped, paid by bank
  transfer, a shipped guest order without a user, and cash on delivery still pending.
\<close>

definition orderCOD :: order where
  "orderCOD = \<lparr>order_id = 3, user = Some 5, orderItems = [\<lparr>product = 11, quantity = 2\<rparr>],
     finalTotal = 300000, paymentMethod = ''COD'', ord_status = ''shipped'',
     createdAt = Some 1704931200000, updatedAt = None\<rparr>"

definition orderBank :: order where
  "orderBank = orderCOD\<lparr>order_id := 4, finalTotal := 500000, paymentMethod := ''BankTransfer'',
     ord_status := ''paid''\<rparr>"

definition orderGuest :: order where
  "orderGuest = orderCOD\<lparr>order_id := 6, user := None\<rparr>"

definition orderPending :: order where
  "orderPending = orderCOD\<lparr>order_id := 8, ord_status := ''pending''\<rparr>"

definition shop :: store where
  "shop = emptyStore\<lparr>accounts := chart,
     orders := [orderCOD, orderBank, orderGuest, orderPending],
     products := [\<lparr>prod_id = 11, averageCost = Some 40000, price = Some 60000, stock = Some 10\<rparr>],
     nextId := 30\<rparr>"

definition envCogs :: post_env where
  "envCogs = \<lparr>env_ref = ''COGS-202401-X7K2P'', env_now = 1705000000000\<rparr>"

definition envCogsAgain :: post_env where
  "envCogsAgain = \<lparr>env_ref = ''COGS-202401-Q1W2E'', env_now = 1705000600000\<rparr>"

definition envSale :: post_env where
  "envSale = \<lparr>env_ref = ''HD-202401-AB12C'', env_now = 1705000000000\<rparr>"

text \<open>
  Requests against the shop: a manual entry whose sides differ by 50, one whose sides
  differ by half a cent, and an adjusting entry whose sides differ by 50.
\<close>

definition rawLine :: "string \<Rightarrow> amount \<Rightarrow> amount \<Rightarrow> raw_line" where
  "rawLine c d k = \<lparr>raw_accountCode = c, raw_debit = Some d, raw_credit = Some k,
     raw_partner = None, raw_partnerType = None\<rparr>"

definition rqOff :: entry_request where
  "rqOff = \<lparr>rq_referenceNo = ''PK-001'', rq_date = Some 1705000000000, rq_memo = ''memo'',
     rq_entryType = [], rq_lines = [rawLine ''111'' 100 0, rawLine ''511'' 0 50],
     rq_sourceId = None, rq_sourceType = None\<rparr>"

definition rqNear :: entry_request where
  "rqNear = rqOff\<lparr>rq_lines := [rawLine ''111'' 100 0, rawLine ''511'' 0 (20001 / 200)]\<rparr>"

definition adjOff :: adjusting_request where
  "adjOff = \<lparr>adj_referenceNo = ''ADJ-001'', adj_date = Some 1707000000000,
     adjustedDate = Some 1705000000000,
     adj_lines = [rawLine ''111'' 100 0, rawLine ''511'' 0 50]\<rparr>"

text \<open>
  The closed January ledger with a cash book transaction of 11 January, and a PUT body
  that rewrites the sale entry to an amount of 5.
\<close>

definition txnJan :: transaction_doc where
  "txnJan = \<lparr>txn_id = 40, txn_type = ''income'', txn_amount = 100000,
     txn_date = 1704931200000, txn_reference = [], txn_paymentStatus = ''paid''\<rparr>"

definition ledgerLocked :: store where
  "ledgerLocked = ledgerJanClosed\<lparr>transactions := [txnJan]\<rparr>"

definition rqRewrite :: entry_request where
  "rqRewrite = \<lparr>rq_referenceNo = [], rq_date = None, rq_memo = [], rq_entryType = [],
     rq_lines = [rawLine ''1121'' 5 0, rawLine ''511'' 0 5], rq_sourceId = None,
     rq_sourceType = None\<rparr>"




text \<open>
  Two fixed assets: a machine of cost 12,000,000 over 12 months, not yet depreciated,
  and a nearly written-off one with 100 left of a cost of 6,000,000 over 12 months.
\<close>

definition machine :: fixed_asset where
  "machine = \<lparr>asset_id = 50, assetCode = ''FA-1'', originalCost = 12000000, usefulLife = 12,
     accumulatedDepreciation = 0, bookValue = 12000000, monthlyDepreciation = None,
     depreciationHistory = [], asset_status = ''active''\<rparr>"

definition oldMachine :: fixed_asset where
  "oldMachine = \<lparr>asset_id = 51, assetCode = [], originalCost = 6000000, usefulLife = 12,
     accumulatedDepreciation = 5999900, bookValue = 100, monthlyDepreciation = None,
     depreciationHistory = [], asset_status = ''active''\<rparr>"

definition factory :: store where
  "factory = emptyStore\<lparr>accounts := chart, fixedAssets := [machine, oldMachine], nextId := 60\<rparr>"









section \<open>Theorems\<close>

subsection \<open>Period closing\<close>

text \<open>
  C3. Closing a period whose status is already \<open>closed\<close> fails with the state error
  of the route (HTTP 400, "this period has already been closed"), and the store after
  the request is the store before it: no journal entry is added and the period record,
  with its status, lockDate, closedAt and closedBy, is the one found before the call.
\<close>

theorem closePeriod_already_closed:
  assumes "periodId rq = Some pid"
    and "find (\<lambda>p. per_id p = pid) (periods st) = Some p"
    and "per_status p = ''closed''"
  shows "closePeriod clk rq st = (Inl PeriodAlreadyClosed, st)
    \<and> httpStatus PeriodAlreadyClosed = 400
    \<and> journalEntries (snd (closePeriod clk rq st)) = journalEntries st
    \<and> find (\<lambda>p. per_id p = pid) (periods (snd (closePeriod clk rq st))) = Some p"
  using assms by (simp add: closePeriod_def withTransaction_def closePeriodBody_def)

theorem closePeriod_already_closed_witness:
  "closePeriod clockFeb closeJan ledgerJanClosed = (Inl PeriodAlreadyClosed, ledgerJanClosed)
    \<and> httpStatus PeriodAlreadyClosed = 400
    \<and> journalEntries (snd (closePeriod clockFeb closeJan ledgerJanClosed))
        = journalEntries ledgerJanClosed
    \<and> find (\<lambda>p. per_id p = 7) (periods (snd (closePeriod clockFeb closeJan ledgerJanClosed)))
        = Some januaryClosed"
proof -
  have a: "periodId closeJan = Some 7"
    by (simp add: closeJan_def)
  have b: "find (\<lambda>p. per_id p = 7) (periods ledgerJanClosed) = Some januaryClosed"
    by (simp add: ledgerJanClosed_def ledgerJan_def emptyStore_def januaryClosed_def january_def)
  have c: "per_status januaryClosed = ''closed''"
    by (simp add: januaryClosed_def)
  show ?thesis
    using closePeriod_already_closed [OF a b c] .
qed

lemma saveNewEntry_Inr:
  assumes "saveNewEntry st r d ty ls sid sty = Inr (e, st')"
  shows "journalEntries st' = journalEntries st @ [e]" "periods st' = periods st"
    "accounts st' = accounts st" "receivables st' = receivables st" "payables st' = payables st"
    "lines e = ls" "je_date e = d" "je_status e = ''posted''" "entryType e = ty"
    "sourceId e = sid" "sourceType e = sty" "referenceNo e = r" "je_id e = nextId st"
    "nextId st' = Suc (nextId st)" "findByReferenceNo st r = None"
    "st' = st\<lparr>journalEntries := journalEntries st @ [e], nextId := Suc (nextId st)\<rparr>"
  using assms by (auto simp: saveNewEntry_def Let_def split: option.splits)





text \<open>The scenario of the specification: revenue 1,000,000 and expense 700,000.\<close>

lemmas ledgerJan_defs = ledgerJan_def emptyStore_def chart_def january_def saleEntry_def costEntry_def
  closeJan_def clockFeb_def



subsection \<open>Cost of goods sold\<close>

lemma find_append_new:
  assumes "find P xs = None" and "P x"
  shows "find P (xs @ [x]) = Some x"
  using assms by (induction xs) (auto split: if_splits)

lemma filter_append_new:
  assumes "find P xs = None" and "P x"
  shows "filter P (xs @ [x]) = [x]"
  using assms by (induction xs) (auto split: if_splits)

lemma find_None_filter: "find P xs = None \<longleftrightarrow> filter P xs = []"
  by (induction xs) auto

lemma postCOGSEntry_Inr:
  assumes "postCOGSEntry env orderId st = (Inr (e, ups), st1)"
  shows "orders st1 = orders st"
    and "\<exists>ord. find (\<lambda>ord. order_id ord = orderId) (orders st) = Some ord"
    and "find (isCOGSEntryOf orderId) (journalEntries st1) = Some e"
    and "find (isCOGSEntryOf orderId) (journalEntries st) \<noteq> None \<Longrightarrow> st1 = st"
    and "find (isCOGSEntryOf orderId) (journalEntries st) = None
           \<Longrightarrow> journalEntries st1 = journalEntries st @ [e] \<and> isCOGSEntryOf orderId e"
proof -
  from assms obtain ord where ord: "find (\<lambda>ord. order_id ord = orderId) (orders st) = Some ord"
    by (auto simp: postCOGSEntry_def split: option.splits)
  show "\<exists>ord. find (\<lambda>ord. order_id ord = orderId) (orders st) = Some ord"
    using ord by blast
  show "find (isCOGSEntryOf orderId) (journalEntries st) \<noteq> None \<Longrightarrow> st1 = st"
    using assms ord by (auto simp: postCOGSEntry_def split: option.splits)
  have new: "journalEntries st1 = journalEntries st @ [e] \<and> isCOGSEntryOf orderId e \<and> orders st1 = orders st"
    if none: "find (isCOGSEntryOf orderId) (journalEntries st) = None"
  proof -
    from assms ord none obtain total prods s1 where
      sv: "saveNewEntry s1 (env_ref env) (orNow (createdAt ord) (env_now env)) ''inventory''
             [mkLine ''632'' total 0, mkLine ''156'' 0 total] (Some orderId) (Some ''order'') = Inr (e, st1)"
      and s1: "s1 = st\<lparr>products := prods\<rparr>"
      by (auto simp: postCOGSEntry_def Let_def split: option.splits if_splits prod.splits sum.splits)
    from saveNewEntry_Inr [OF sv] s1 show ?thesis
      by (auto simp: isCOGSEntryOf_def mkLine_def saveNewEntry_def Let_def split: option.splits)
  qed
  then show "find (isCOGSEntryOf orderId) (journalEntries st) = None
           \<Longrightarrow> journalEntries st1 = journalEntries st @ [e] \<and> isCOGSEntryOf orderId e"
    by blast
  show "orders st1 = orders st"
    using assms ord new by (cases "find (isCOGSEntryOf orderId) (journalEntries st)")
      (auto simp: postCOGSEntry_def)
  show "find (isCOGSEntryOf orderId) (journalEntries st1) = Some e"
  proof (cases "find (isCOGSEntryOf orderId) (journalEntries st)")
    case None
    with new find_append_new [OF None] show ?thesis by simp
  next
    case (Some x)
    with assms ord show ?thesis by (auto simp: postCOGSEntry_def)
  qed
qed

text \<open>
  C10. When the order exists and already has a posted COGS entry, postCOGSEntry returns
  that entry with an empty productsUpdated list and leaves the store as it found it, so
  no product's stock or averageCost changes. Hence after any invocation that returned
  an entry, a further invocation for the same order returns the same entry with an
  empty list and leaves every product untouched: stock is not decremented a second time.
\<close>

theorem postCOGSEntry_existing_entry:
  "(find (\<lambda>ord. order_id ord = orderId) (orders st) = Some ord
      \<and> find (isCOGSEntryOf orderId) (journalEntries st) = Some e
     \<longrightarrow> postCOGSEntry env orderId st = (Inr (e, []), st)
         \<and> products (snd (postCOGSEntry env orderId st)) = products st)
   \<and> (postCOGSEntry env1 orderId st = (Inr (e1, ups), st1)
     \<longrightarrow> fst (postCOGSEntry env2 orderId st1) = Inr (e1, [])
         \<and> products (snd (postCOGSEntry env2 orderId st1)) = products st1)"
proof (intro conjI impI)
  assume a: "find (\<lambda>ord. order_id ord = orderId) (orders st) = Some ord
      \<and> find (isCOGSEntryOf orderId) (journalEntries st) = Some e"
  then show "postCOGSEntry env orderId st = (Inr (e, []), st)"
    by (simp add: postCOGSEntry_def)
  then show "products (snd (postCOGSEntry env orderId st)) = products st"
    by simp
next
  assume first: "postCOGSEntry env1 orderId st = (Inr (e1, ups), st1)"
  note r = postCOGSEntry_Inr [OF first]
  from r(2) obtain ord where "find (\<lambda>ord. order_id ord = orderId) (orders st) = Some ord" ..
  with r(1) have "find (\<lambda>ord. order_id ord = orderId) (orders st1) = Some ord" by simp
  with r(3) have second: "postCOGSEntry env2 orderId st1 = (Inr (e1, []), st1)"
    by (simp add: postCOGSEntry_def)
  then show "fst (postCOGSEntry env2 orderId st1) = Inr (e1, [])"
    and "products (snd (postCOGSEntry env2 orderId st1)) = products st1"
    by simp_all
qed

text \<open>
  C2. postCOGSEntry is idempotent per order. If an invocation for an order returns an
  entry, a second invocation (with its own clock and random reference number) returns
  the same entry and changes nothing in the store; when the order had no posted COGS
  entry before the first invocation, the journal holds exactly one such entry after
  both, and when it had one, the first invocation already changed nothing.
\<close>

theorem postCOGSEntry_idempotent:
  assumes "postCOGSEntry env1 orderId st = (Inr (e, ups), st1)"
  shows "postCOGSEntry env2 orderId st1 = (Inr (e, []), st1)
     \<and> (filter (isCOGSEntryOf orderId) (journalEntries st) = []
          \<longrightarrow> filter (isCOGSEntryOf orderId) (journalEntries st1) = [e])
     \<and> (filter (isCOGSEntryOf orderId) (journalEntries st) \<noteq> [] \<longrightarrow> st1 = st)"
proof -
  note r = postCOGSEntry_Inr [OF assms]
  from r(2) obtain ord where "find (\<lambda>ord. order_id ord = orderId) (orders st) = Some ord" ..
  with r(1) have "find (\<lambda>ord. order_id ord = orderId) (orders st1) = Some ord" by simp
  with r(3) have second: "postCOGSEntry env2 orderId st1 = (Inr (e, []), st1)"
    by (simp add: postCOGSEntry_def)
  have one: "filter (isCOGSEntryOf orderId) (journalEntries st1) = [e]"
    if "filter (isCOGSEntryOf orderId) (journalEntries st) = []"
  proof -
    from that have n: "find (isCOGSEntryOf orderId) (journalEntries st) = None"
      by (simp add: find_None_filter)
    from r(5) [OF n] have "isCOGSEntryOf orderId e" and "journalEntries st1 = journalEntries st @ [e]"
      by simp_all
    with filter_append_new [OF n] show ?thesis by simp
  qed
  have same: "st1 = st" if "filter (isCOGSEntryOf orderId) (journalEntries st) \<noteq> []"
    using that r(4) by (simp add: find_None_filter)
  from second one same show ?thesis by blast
qed


lemmas shop_defs = shop_def emptyStore_def chart_def orderCOD_def orderBank_def orderGuest_def
  orderPending_def envCogs_def envCogsAgain_def envSale_def

lemmas postCOGSEntry_defs = postCOGSEntry_def isCOGSEntryOf_def orElse_def orNow_def
  findByReferenceNo_def saveNewEntry_def unbalanced_def totalDebit_def totalCredit_def
  mkLine_def Let_def

lemma shop_first_cogs:
  "\<exists>e ups st1. postCOGSEntry envCogs 3 shop = (Inr (e, ups), st1)
      \<and> lines e = [mkLine ''632'' 80000 0, mkLine ''156'' 0 80000]
      \<and> map stock (products st1) = [Some 8] \<and> journalEntries shop = []"
  by (simp add: postCOGSEntry_defs shop_defs)

theorem postCOGSEntry_idempotent_witness:
  "\<exists>e ups st1. postCOGSEntry envCogs 3 shop = (Inr (e, ups), st1)
      \<and> postCOGSEntry envCogsAgain 3 st1 = (Inr (e, []), st1)
      \<and> filter (isCOGSEntryOf 3) (journalEntries st1) = [e]
      \<and> lines e = [mkLine ''632'' 80000 0, mkLine ''156'' 0 80000]"
proof -
  from shop_first_cogs obtain e ups st1 where
    h: "postCOGSEntry envCogs 3 shop = (Inr (e, ups), st1)"
    and l: "lines e = [mkLine ''632'' 80000 0, mkLine ''156'' 0 80000]"
    and n: "journalEntries shop = []"
    by auto
  from postCOGSEntry_idempotent [OF h, of envCogsAgain] h l n show ?thesis
    by auto
qed

theorem postCOGSEntry_existing_entry_witness:
  "\<exists>e ups st1. postCOGSEntry envCogs 3 shop = (Inr (e, ups), st1)
      \<and> map stock (products st1) = [Some 8]
      \<and> fst (postCOGSEntry envCogsAgain 3 st1) = Inr (e, [])
      \<and> map stock (products (snd (postCOGSEntry envCogsAgain 3 st1))) = [Some 8]
      \<and> postCOGSEntry envCogs 3 (shop\<lparr>journalEntries := [e]\<rparr>)
          = (Inr (e, []), shop\<lparr>journalEntries := [e]\<rparr>)"
proof -
  from shop_first_cogs obtain e ups st1 where
    h: "postCOGSEntry envCogs 3 shop = (Inr (e, ups), st1)"
    and l: "lines e = [mkLine ''632'' 80000 0, mkLine ''156'' 0 80000]"
    and s: "map stock (products st1) = [Some 8]"
    and n: "journalEntries shop = []"
    by auto
  have ord: "find (\<lambda>ord. order_id ord = 3) (orders (shop\<lparr>journalEntries := [e]\<rparr>)) = Some orderCOD"
    by (simp add: shop_defs)
  from postCOGSEntry_Inr(5) [OF h] n have "isCOGSEntryOf 3 e"
    by simp
  then have ex: "find (isCOGSEntryOf 3) (journalEntries (shop\<lparr>journalEntries := [e]\<rparr>)) = Some e"
    by simp
  from postCOGSEntry_existing_entry [of 3 "shop\<lparr>journalEntries := [e]\<rparr>" orderCOD e envCogs]
    ord ex
  have a: "postCOGSEntry envCogs 3 (shop\<lparr>journalEntries := [e]\<rparr>)
          = (Inr (e, []), shop\<lparr>journalEntries := [e]\<rparr>)"
    by blast
  from postCOGSEntry_existing_entry [of 3 shop orderCOD e envCogs envCogs e ups st1 envCogsAgain] h
  have b: "fst (postCOGSEntry envCogsAgain 3 st1) = Inr (e, [])
      \<and> products (snd (postCOGSEntry envCogsAgain 3 st1)) = products st1"
    by blast
  from h s a b show ?thesis by auto
qed

subsection \<open>Sale posting\<close>








subsection \<open>Balance of posted entries\<close>


















































lemmas request_defs = rawLine_def rqOff_def rqNear_def adjOff_def rqRewrite_def toLine_def
  toAdjustingLine_def orElse_def totalDebit_def totalCredit_def mkLine_def


subsection \<open>Lock date\<close>

text \<open>
  C7 does not hold of the code. In the ledger whose January period is closed with lock
  date 31 January, checkLockDate reports the date of the sale entry (11 January) as
  locked; yet DELETE /journal-entries removes that entry and PUT /journal-entries
  rewrites its lines, since both routes only carry a TODO where the guard should be
  called. DELETE /transactions, the sibling route, does consult the guard and refuses a
  transaction of the same date.
\<close>

theorem lock_date_not_consulted:
  "checkLockDate ledgerLocked (je_date saleEntry) = IsLocked 1706745599000 ''Thang 1/2024''
   \<and> deleteJournalEntry 20 ledgerLocked = Inr (ledgerLocked\<lparr>journalEntries := [costEntry]\<rparr>)
   \<and> updateJournalEntry 20 rqRewrite ledgerLocked
       = Inr (saleEntry\<lparr>lines := [mkLine ''1121'' 5 0, mkLine ''511'' 0 5]\<rparr>,
              ledgerLocked\<lparr>journalEntries :=
                [saleEntry\<lparr>lines := [mkLine ''1121'' 5 0, mkLine ''511'' 0 5]\<rparr>, costEntry]\<rparr>)
   \<and> checkLockDate ledgerLocked (txn_date txnJan) = IsLocked 1706745599000 ''Thang 1/2024''
   \<and> deleteTransaction 40 ledgerLocked = Inl (Locked 1706745599000)"
  by (simp add: checkLockDate_def deleteJournalEntry_def updateJournalEntry_def
      deleteTransaction_def ledgerLocked_def ledgerJanClosed_def januaryClosed_def
      ledgerJan_defs txnJan_def request_defs unbalanced_def accountsExist_def Let_def)

text \<open>After the delete the locked entry is gone from the journal.\<close>

theorem lock_date_not_consulted_witness:
  "\<exists>st'. deleteJournalEntry 20 ledgerLocked = Inr st'
     \<and> find (\<lambda>e. je_id e = 20) (journalEntries ledgerLocked) = Some saleEntry
     \<and> find (\<lambda>e. je_id e = 20) (journalEntries st') = None
     \<and> checkLockDate st' (je_date saleEntry) = IsLocked 1706745599000 ''Thang 1/2024''"
proof -
  from lock_date_not_consulted
  have d: "deleteJournalEntry 20 ledgerLocked = Inr (ledgerLocked\<lparr>journalEntries := [costEntry]\<rparr>)"
    and l: "checkLockDate ledgerLocked (je_date saleEntry) = IsLocked 1706745599000 ''Thang 1/2024''"
    by blast+
  have "find (\<lambda>e. je_id e = 20) (journalEntries ledgerLocked) = Some saleEntry"
    and "find (\<lambda>e. je_id e = 20) (journalEntries (ledgerLocked\<lparr>journalEntries := [costEntry]\<rparr>)) = None"
    by (simp_all add: ledgerLocked_def ledgerJanClosed_def ledgerJan_defs)
  moreover from l
  have "checkLockDate (ledgerLocked\<lparr>journalEntries := [costEntry]\<rparr>) (je_date saleEntry)
          = IsLocked 1706745599000 ''Thang 1/2024''"
    by (simp add: checkLockDate_def)
  ultimately show ?thesis
    using d by simp
qed

subsection \<open>Trial balance\<close>















subsection \<open>Monthly depreciation\<close>

lemma findByReferenceNo_iff:
  "findByReferenceNo st r \<noteq> None \<longleftrightarrow> r \<in> referenceNo ` set (journalEntries st)"
  by (auto simp: findByReferenceNo_def find_None_iff)

lemma postDepreciation_cases:
  assumes "postDepreciation m d a amt st = Inr (a', st', r)"
  shows "(r = None \<and> a' = a \<and> st' = st \<and> depreciationRef m a \<in> referenceNo ` set (journalEntries st))
    \<or> (\<exists>je. r = Some \<lparr>dr_asset = asset_id a, dr_depreciationAmount = amt,
                       dr_accumulatedDepreciation = accumulatedDepreciation a + amt,
                       dr_bookValue = originalCost a - (accumulatedDepreciation a + amt),
                       dr_journalEntry = je_id je\<rparr>
            \<and> a' = a\<lparr>accumulatedDepreciation := accumulatedDepreciation a + amt,
                     bookValue := originalCost a - (accumulatedDepreciation a + amt),
                     depreciationHistory := depreciationHistory a
                       @ [\<lparr>dep_month = m, dep_amount = amt, dep_journalEntry = je_id je\<rparr>]\<rparr>
            \<and> st' = st\<lparr>journalEntries := journalEntries st @ [je], nextId := Suc (nextId st)\<rparr>
            \<and> lines je = [mkLine ''642'' amt 0, mkLine ''214'' 0 amt]
            \<and> referenceNo je = depreciationRef m a \<and> je_status je = ''posted'')"
proof (cases "findByReferenceNo st (depreciationRef m a)")
  case (Some x)
  with assms findByReferenceNo_iff [of st "depreciationRef m a"] show ?thesis
    by (simp add: postDepreciation_def)
next
  case None
  with assms obtain je where
    sv: "saveNewEntry st (depreciationRef m a) d ''depreciation''
           [mkLine ''642'' amt 0, mkLine ''214'' 0 amt] (Some (asset_id a)) (Some ''depreciation'')
         = Inr (je, st')"
    by (auto simp: postDepreciation_def Let_def split: sum.splits)
  from assms None sv saveNewEntry_Inr [OF sv] show ?thesis
    by (intro disjI2 exI [of _ je]) (auto simp: postDepreciation_def Let_def)
qed


lemma depreciateAsset_skip:
  assumes "depreciateAsset m d a st = Inr (a', st', None)"
  shows "a' = a" and "st' = st"
  using assms
  by (auto simp: depreciateAsset_def split: if_splits jsnum.splits option.splits
      dest: postDepreciation_cases)

lemma depreciateAsset_posted:
  assumes "depreciateAsset m d a st = Inr (a', st', Some res)"
  shows "\<exists>je. depreciationAmount a = Fin (dr_depreciationAmount res)
          \<and> 0 < dr_depreciationAmount res
          \<and> \<not> list_ex (\<lambda>dep. dep_month dep = m) (depreciationHistory a)
          \<and> accumulatedDepreciation a < originalCost a
          \<and> a' = a\<lparr>accumulatedDepreciation := accumulatedDepreciation a + dr_depreciationAmount res,
                     bookValue := originalCost a - (accumulatedDepreciation a + dr_depreciationAmount res),
                     depreciationHistory := depreciationHistory a
                       @ [\<lparr>dep_month = m, dep_amount = dr_depreciationAmount res,
                           dep_journalEntry = dr_journalEntry res\<rparr>]\<rparr>
          \<and> st' = st\<lparr>journalEntries := journalEntries st @ [je], nextId := Suc (nextId st)\<rparr>
          \<and> je_id je = dr_journalEntry res
          \<and> lines je = [mkLine ''642'' (dr_depreciationAmount res) 0,
                        mkLine ''214'' 0 (dr_depreciationAmount res)]
          \<and> referenceNo je = depreciationRef m a \<and> je_status je = ''posted''"
proof -
  from assms obtain amt where amt: "depreciationAmount a = Fin amt" "0 < amt"
    and h: "\<not> list_ex (\<lambda>dep. dep_month dep = m) (depreciationHistory a)"
      "accumulatedDepreciation a < originalCost a"
    and p: "postDepreciation m d a amt st = Inr (a', st', Some res)"
    by (auto simp: depreciateAsset_def split: if_splits jsnum.splits option.splits)
  from postDepreciation_cases [OF p] amt h show ?thesis
    by auto
qed

lemma jsMin_Fin_le: "jsMin x r = Fin amt \<Longrightarrow> amt \<le> r"
  by (cases x) auto

lemma depreciateAsset_bound:
  assumes "depreciateAsset m d a st = Inr (a', st', r)"
    and "accumulatedDepreciation a \<le> originalCost a"
  shows "accumulatedDepreciation a' \<le> originalCost a'"
proof (cases r)
  case None
  with assms depreciateAsset_skip(1) [of m d a st a' st'] show ?thesis by simp
next
  case (Some res)
  with assms(1) depreciateAsset_posted [of m d a st a' st' res] obtain je where
    am: "depreciationAmount a = Fin (dr_depreciationAmount res)"
    and a': "a' = a\<lparr>accumulatedDepreciation := accumulatedDepreciation a + dr_depreciationAmount res,
                     bookValue := originalCost a - (accumulatedDepreciation a + dr_depreciationAmount res),
                     depreciationHistory := depreciationHistory a
                       @ [\<lparr>dep_month = m, dep_amount = dr_depreciationAmount res,
                           dep_journalEntry = dr_journalEntry res\<rparr>]\<rparr>"
    by blast
  from jsMin_Fin_le [OF am [unfolded depreciationAmount_def]]
  have "dr_depreciationAmount res \<le> originalCost a - accumulatedDepreciation a"
    by (simp add: remainingValue_def)
  with a' show ?thesis by simp
qed

lemma depreciateAsset_refs:
  assumes "depreciateAsset m d a st = Inr (a', st', r)"
  shows "referenceNo ` set (journalEntries st) \<subseteq> referenceNo ` set (journalEntries st')"
proof (cases r)
  case None
  with assms depreciateAsset_skip(2) [of m d a st a' st'] show ?thesis by simp
next
  case (Some res)
  with assms depreciateAsset_posted [of m d a st a' st' res] show ?thesis by auto
qed

text \<open>Once an asset has been through the loop, a later pass for the same month skips it.\<close>

lemma depreciateAsset_again:
  assumes first: "depreciateAsset m d a st = Inr (a', st', r)"
    and later: "referenceNo ` set (journalEntries st') \<subseteq> referenceNo ` set (journalEntries s2)"
  shows "depreciateAsset m d2 a' s2 = Inr (a', s2, None)"
proof (cases r)
  case (Some res)
  with first depreciateAsset_posted [of m d a st a' st' res] show ?thesis
    by (auto simp: depreciateAsset_def)
next
  case None
  with first have eq: "a' = a" "st' = st"
    by (auto dest: depreciateAsset_skip)
  have ref: "findByReferenceNo s2 (depreciationRef m a) \<noteq> None"
    if "findByReferenceNo st (depreciationRef m a) \<noteq> None"
  proof -
    from that have "depreciationRef m a \<in> referenceNo ` set (journalEntries st)"
      by (simp only: findByReferenceNo_iff)
    with later eq have "depreciationRef m a \<in> referenceNo ` set (journalEntries s2)"
      by blast
    then show ?thesis
      by (simp only: findByReferenceNo_iff)
  qed
  from first None eq ref show ?thesis
    by (auto simp: depreciateAsset_def postDepreciation_def Let_def
        split: if_splits jsnum.splits option.splits sum.splits)
qed

lemma depreciationLoop_refs:
  assumes "depreciationLoop m d as st = Inr (as', st', rs)"
  shows "referenceNo ` set (journalEntries st) \<subseteq> referenceNo ` set (journalEntries st')"
  using assms
proof (induction as arbitrary: st as' st' rs)
  case Nil
  then show ?case by simp
next
  case (Cons a as)
  show ?case
  proof (cases "asset_status a \<noteq> ''active''")
    case True
    with Cons.prems obtain rest' where "depreciationLoop m d as st = Inr (rest', st', rs)"
      by (auto split: sum.splits)
    from Cons.IH [OF this] show ?thesis .
  next
    case False
    with Cons.prems obtain a' st1 r rest' rs' where
      s: "depreciateAsset m d a st = Inr (a', st1, r)"
      and l: "depreciationLoop m d as st1 = Inr (rest', st', rs')"
      by (auto split: sum.splits)
    from depreciateAsset_refs [OF s] Cons.IH [OF l] show ?thesis by blast
  qed
qed

lemma depreciationLoop_again:
  assumes "depreciationLoop m d as st = Inr (as', st', rs)"
    and "referenceNo ` set (journalEntries st') \<subseteq> referenceNo ` set (journalEntries s2)"
  shows "depreciationLoop m d2 as' s2 = Inr (as', s2, [])"
  using assms
proof (induction as arbitrary: st as' st' rs)
  case Nil
  then show ?case by simp
next
  case (Cons a as)
  show ?case
  proof (cases "asset_status a \<noteq> ''active''")
    case True
    with Cons.prems obtain rest' where l: "depreciationLoop m d as st = Inr (rest', st', rs)"
      and as': "as' = a # rest'"
      by (auto split: sum.splits)
    from Cons.IH [OF l Cons.prems(2)] True as' show ?thesis by simp
  next
    case False
    with Cons.prems obtain a' st1 r rest' rs' where
      s: "depreciateAsset m d a st = Inr (a', st1, r)"
      and l: "depreciationLoop m d as st1 = Inr (rest', st', rs')"
      and as': "as' = a' # rest'"
      by (auto split: sum.splits)
    from depreciationLoop_refs [OF l] Cons.prems(2)
    have "referenceNo ` set (journalEntries st1) \<subseteq> referenceNo ` set (journalEntries s2)"
      by blast
    note again = depreciateAsset_again [OF s this, of d2]
    have act: "asset_status a' = ''active''"
    proof (cases r)
      case None
      with s False show ?thesis by (auto dest: depreciateAsset_skip)
    next
      case (Some res)
      with s False depreciateAsset_posted [of m d a st a' st1 res] show ?thesis by auto
    qed
    from Cons.IH [OF l Cons.prems(2)] again act as' show ?thesis by simp
  qed
qed

text \<open>What one pass does to each asset, as a relation between the asset before and after.\<close>

lemma depreciationLoop_assets:
  assumes "depreciationLoop m d as st = Inr (as', st', rs)"
  shows "list_all2 (\<lambda>a a'. originalCost a' = originalCost a
            \<and> (accumulatedDepreciation a \<le> originalCost a
                 \<longrightarrow> accumulatedDepreciation a' \<le> originalCost a')
            \<and> (a' = a
                \<or> (\<not> list_ex (\<lambda>dep. dep_month dep = m) (depreciationHistory a)
                    \<and> (\<exists>row. dep_month row = m
                          \<and> depreciationHistory a' = depreciationHistory a @ [row]))))
         as as'"
  using assms
proof (induction as arbitrary: st as' st' rs)
  case Nil
  then show ?case by simp
next
  case (Cons a as)
  show ?case
  proof (cases "asset_status a \<noteq> ''active''")
    case True
    with Cons.prems obtain rest' where l: "depreciationLoop m d as st = Inr (rest', st', rs)"
      and as': "as' = a # rest'"
      by (auto split: sum.splits)
    from Cons.IH [OF l] as' show ?thesis by simp
  next
    case False
    with Cons.prems obtain a' st1 r rest' rs' where
      s: "depreciateAsset m d a st = Inr (a', st1, r)"
      and l: "depreciationLoop m d as st1 = Inr (rest', st', rs')"
      and as': "as' = a' # rest'"
      by (auto split: sum.splits)
    have one: "originalCost a' = originalCost a
            \<and> (a' = a
                \<or> (\<not> list_ex (\<lambda>dep. dep_month dep = m) (depreciationHistory a)
                    \<and> (\<exists>row. dep_month row = m
                          \<and> depreciationHistory a' = depreciationHistory a @ [row])))"
    proof (cases r)
      case None
      with s show ?thesis by (auto dest: depreciateAsset_skip)
    next
      case (Some res)
      with s depreciateAsset_posted [of m d a st a' st1 res] show ?thesis by auto
    qed
    from Cons.IH [OF l] one depreciateAsset_bound [OF s] as' show ?thesis by simp
  qed
qed


text \<open>
  C8. One iteration of the depreciation loop skips an asset that has a history row for
  the target month or whose accumulated depreciation has reached its cost, and a skip
  changes neither the asset nor the journal. When it posts, the amount is
  Math.min(monthly amount, cost - accumulated), finite and positive; the entry debits
  642 and credits 214 by it, the accumulated depreciation grows by it and exactly one
  history row for the month is appended. An asset whose accumulated depreciation does
  not exceed its cost keeps that property. For the batch: after a run that succeeded,
  a second run for the same month posts nothing and leaves the store unchanged, and
  each asset either is unchanged or had no row for the month and gained exactly one.
\<close>

theorem depreciation_once_per_month:
  "(depreciateAsset m d a st = Inr (a', st', r) \<longrightarrow>
      (list_ex (\<lambda>dep. dep_month dep = m) (depreciationHistory a)
         \<or> originalCost a \<le> accumulatedDepreciation a \<longrightarrow> r = None)
      \<and> (r = None \<longrightarrow> a' = a \<and> st' = st)
      \<and> (\<forall>res. r = Some res \<longrightarrow>
            jsMin (monthlyAmount a) (originalCost a - accumulatedDepreciation a)
              = Fin (dr_depreciationAmount res)
            \<and> 0 < dr_depreciationAmount res
            \<and> accumulatedDepreciation a' = accumulatedDepreciation a + dr_depreciationAmount res
            \<and> depreciationHistory a'
                = depreciationHistory a @ [\<lparr>dep_month = m, dep_amount = dr_depreciationAmount res,
                                             dep_journalEntry = dr_journalEntry res\<rparr>]
            \<and> (\<exists>je. journalEntries st' = journalEntries st @ [je]
                  \<and> je_id je = dr_journalEntry res
                  \<and> lines je = [mkLine ''642'' (dr_depreciationAmount res) 0,
                                mkLine ''214'' 0 (dr_depreciationAmount res)]))
      \<and> (accumulatedDepreciation a \<le> originalCost a
            \<longrightarrow> accumulatedDepreciation a' \<le> originalCost a'))
   \<and> (depreciationCalculate m d st = (Inr rs, st1) \<longrightarrow>
        depreciationCalculate m d2 st1 = (Inr [], st1)
        \<and> list_all2 (\<lambda>a a'. originalCost a' = originalCost a
              \<and> (accumulatedDepreciation a \<le> originalCost a
                   \<longrightarrow> accumulatedDepreciation a' \<le> originalCost a')
              \<and> (a' = a
                  \<or> (\<not> list_ex (\<lambda>dep. dep_month dep = m) (depreciationHistory a)
                      \<and> (\<exists>row. dep_month row = m
                            \<and> depreciationHistory a' = depreciationHistory a @ [row]))))
            (fixedAssets st) (fixedAssets st1))"
proof (intro conjI impI allI)
  assume s: "depreciateAsset m d a st = Inr (a', st', r)"
  {
    assume "list_ex (\<lambda>dep. dep_month dep = m) (depreciationHistory a)
         \<or> originalCost a \<le> accumulatedDepreciation a"
    with s show "r = None"
      by (auto simp: depreciateAsset_def split: if_splits)
  }
  {
    assume "r = None"
    with s show "a' = a" and "st' = st"
      by (auto dest: depreciateAsset_skip)
  }
  {
    fix res assume "r = Some res"
    with s depreciateAsset_posted [of m d a st a' st' res] obtain je where
      p: "depreciationAmount a = Fin (dr_depreciationAmount res)"
        "0 < dr_depreciationAmount res"
        "a' = a\<lparr>accumulatedDepreciation := accumulatedDepreciation a + dr_depreciationAmount res,
                     bookValue := originalCost a - (accumulatedDepreciation a + dr_depreciationAmount res),
                     depreciationHistory := depreciationHistory a
                       @ [\<lparr>dep_month = m, dep_amount = dr_depreciationAmount res,
                           dep_journalEntry = dr_journalEntry res\<rparr>]\<rparr>"
        "st' = st\<lparr>journalEntries := journalEntries st @ [je], nextId := Suc (nextId st)\<rparr>"
        "je_id je = dr_journalEntry res"
        "lines je = [mkLine ''642'' (dr_depreciationAmount res) 0,
                        mkLine ''214'' 0 (dr_depreciationAmount res)]"
      by blast
    from p(1) show "jsMin (monthlyAmount a) (originalCost a - accumulatedDepreciation a)
              = Fin (dr_depreciationAmount res)"
      by (simp add: depreciationAmount_def remainingValue_def)
    from p(2) show "0 < dr_depreciationAmount res" .
    from p(3) show "accumulatedDepreciation a' = accumulatedDepreciation a + dr_depreciationAmount res"
      and "depreciationHistory a'
                = depreciationHistory a @ [\<lparr>dep_month = m, dep_amount = dr_depreciationAmount res,
                                             dep_journalEntry = dr_journalEntry res\<rparr>]"
      by simp_all
    from p(4,5,6) show "\<exists>je. journalEntries st' = journalEntries st @ [je]
                  \<and> je_id je = dr_journalEntry res
                  \<and> lines je = [mkLine ''642'' (dr_depreciationAmount res) 0,
                                mkLine ''214'' 0 (dr_depreciationAmount res)]"
      by (intro exI [of _ je]) simp
  }
  {
    assume "accumulatedDepreciation a \<le> originalCost a"
    from depreciateAsset_bound [OF s this]
    show "accumulatedDepreciation a' \<le> originalCost a'" .
  }
next
  assume c: "depreciationCalculate m d st = (Inr rs, st1)"
  then obtain as' s' where l: "depreciationLoop m d (fixedAssets st) st = Inr (as', s', rs)"
    and st1: "st1 = s'\<lparr>fixedAssets := as'\<rparr>"
    by (auto simp: depreciationCalculate_def withTransaction_def split: sum.splits)
  have "referenceNo ` set (journalEntries s') \<subseteq> referenceNo ` set (journalEntries st1)"
    by (simp add: st1)
  from depreciationLoop_again [OF l this, of d2] st1
  show "depreciationCalculate m d2 st1 = (Inr [], st1)"
    by (simp add: depreciationCalculate_def withTransaction_def)
  from depreciationLoop_assets [OF l] st1
  show "list_all2 (\<lambda>a a'. originalCost a' = originalCost a
              \<and> (accumulatedDepreciation a \<le> originalCost a
                   \<longrightarrow> accumulatedDepreciation a' \<le> originalCost a')
              \<and> (a' = a
                  \<or> (\<not> list_ex (\<lambda>dep. dep_month dep = m) (depreciationHistory a)
                      \<and> (\<exists>row. dep_month row = m
                            \<and> depreciationHistory a' = depreciationHistory a @ [row]))))
            (fixedAssets st) (fixedAssets st1)"
    by simp
qed

lemmas depreciation_defs = depreciationCalculate_def withTransaction_def depreciateAsset_def
  postDepreciation_def depreciationAmount_def monthlyAmount_def jsDivide_def remainingValue_def
  depreciationRef_def idSuffix_def hexDigit_def saveNewEntry_def findByReferenceNo_def Let_def
  factory_def machine_def oldMachine_def emptyStore_def chart_def

lemma factory_first_run:
  "\<exists>rs st1. depreciationCalculate ''2024-02'' 1706745600000 factory = (Inr rs, st1)
     \<and> map dr_depreciationAmount rs = [1000000, 100]
     \<and> map accumulatedDepreciation (fixedAssets st1) = [1000000, 6000000]
     \<and> map referenceNo (journalEntries st1) = [''DEP-2024-02-FA-1'', ''DEP-2024-02-000033'']"
  by (simp add: depreciation_defs)

lemma factory_first_step:
  "\<exists>a' st' res. depreciateAsset ''2024-02'' 1706745600000 oldMachine factory = Inr (a', st', Some res)
     \<and> dr_depreciationAmount res = 100"
  by (simp add: depreciation_defs)

theorem depreciation_once_per_month_witness:
  "\<exists>rs st1 a' st' res.
      depreciationCalculate ''2024-02'' 1706745600000 factory = (Inr rs, st1)
      \<and> map dr_depreciationAmount rs = [1000000, 100]
      \<and> map accumulatedDepreciation (fixedAssets st1) = [1000000, 6000000]
      \<and> depreciationCalculate ''2024-02'' 1709251200000 st1 = (Inr [], st1)
      \<and> depreciateAsset ''2024-02'' 1706745600000 oldMachine factory = Inr (a', st', Some res)
      \<and> dr_depreciationAmount res = 100
      \<and> accumulatedDepreciation a' = originalCost a'
      \<and> length (depreciationHistory a') = 1"
proof -
  from factory_first_run obtain rs st1 where
    run: "depreciationCalculate ''2024-02'' 1706745600000 factory = (Inr rs, st1)"
    and am: "map dr_depreciationAmount rs = [1000000, 100]"
    and acc: "map accumulatedDepreciation (fixedAssets st1) = [1000000, 6000000]"
    by auto
  from factory_first_step obtain a' st' res where
    step: "depreciateAsset ''2024-02'' 1706745600000 oldMachine factory = Inr (a', st', Some res)"
    and r: "dr_depreciationAmount res = 100"
    by auto
  have old: "accumulatedDepreciation oldMachine = 5999900" "originalCost oldMachine = 6000000"
    "depreciationHistory oldMachine = []"
    by (simp_all add: oldMachine_def)
  from depreciation_once_per_month [of "''2024-02''" 1706745600000 oldMachine factory a' st'
      "Some res" rs st1 1709251200000] run step
  have again: "depreciationCalculate ''2024-02'' 1709251200000 st1 = (Inr [], st1)"
    and a1: "accumulatedDepreciation a' = accumulatedDepreciation oldMachine + dr_depreciationAmount res"
    and a2: "depreciationHistory a'
                = depreciationHistory oldMachine @ [\<lparr>dep_month = ''2024-02'',
                    dep_amount = dr_depreciationAmount res, dep_journalEntry = dr_journalEntry res\<rparr>]"
    and a3: "accumulatedDepreciation oldMachine \<le> originalCost oldMachine
            \<longrightarrow> accumulatedDepreciation a' \<le> originalCost a'"
    by blast+
  from a1 a3 old r have "accumulatedDepreciation a' = originalCost a'"
    using step by (auto simp: depreciation_defs)
  with run am acc again step r a2 old show ?thesis
    by auto
qed

subsection \<open>Transactions\<close>




















end
